theory Spec2Isabelle
  imports Complex_Main
begin

section \<open>Nonlinear solvers: Newton-Raphson, bisection and their composition\<close>

text \<open>
  The module \<^verbatim>\<open>nonlinear_solvers/solvers.py\<close> has three functions,
  \<^verbatim>\<open>newton_raphson\<close>, \<^verbatim>\<open>bisection\<close> and \<^verbatim>\<open>solve\<close>, and one exception
  class. Scalars are modelled as \<^typ>\<open>real\<close>: finite values, with exact sums,
  differences and quotients (rounding, infinities and NaN are outside the model). The
  one place where the floating-point result decides the control flow differently from
  the exact one is the sign test of the product in \<^verbatim>\<open>bisection\<close>, whose underflow to
  zero is written out (\<open>float_product\<close> below). The iteration budget and
  counter as \<^typ>\<open>int\<close> (Python's unbounded integers), and the caller's \<open>f\<close> and
  \<open>df\<close> as total pure functions on the reals. Every \<^verbatim>\<open>raise\<close> of the source is a value
  of the type \<open>error\<close>; so is the fault of the division \<^verbatim>\<open>f(x_0)/df(x_0)\<close> when the
  derivative is zero.
\<close>

subsection \<open>Errors\<close>

text \<open>
  \<open>ConvergenceError\<close> is the module's own exception class, \<open>ValueError\<close> is raised by
  the bracket check of \<^verbatim>\<open>bisection\<close>, \<open>ZeroDivisionError\<close> is what Python's division
  raises on a zero divisor.
\<close>

datatype error = ConvergenceError | ValueError | ZeroDivisionError

subsection \<open>Newton-Raphson iteration\<close>

text \<open>
  The loop of \<^verbatim>\<open>newton_raphson\<close>:
  \<^verbatim>\<open>
    count = 0
    while (abs(f(x_0)) >= eps):
        x_0 = x_0 - f(x_0)/df(x_0)
        count += 1
        if count > max_its:
            raise ConvergenceError(...)
    return x_0
  \<close>
  Besides the outcome, the model returns the list of events of the run in the order
  they happen: \<open>GuardEval x\<close> for an evaluation of the loop guard at the estimate \<open>x\<close>,
  \<open>DfCall x\<close> for a call of the derivative at \<open>x\<close>, \<open>Update x'\<close> for the assignment of
  the new estimate \<open>x'\<close> (it happens only when the division did not fault). The events
  do not influence the outcome.
\<close>

datatype nr_event =
  is_GuardEval: GuardEval real | is_DfCall: DfCall real | is_Update: Update real

function newton_loop ::
  "(real \<Rightarrow> real) \<Rightarrow> (real \<Rightarrow> real) \<Rightarrow> real \<Rightarrow> int \<Rightarrow> real \<Rightarrow> int
     \<Rightarrow> (error + real) \<times> nr_event list" where
  "newton_loop f df eps max_its x count =
     (if \<bar>f x\<bar> \<ge> eps then
        (if df x = 0 then (Inl ZeroDivisionError, [GuardEval x, DfCall x])
         else if count + 1 > max_its
           then (Inl ConvergenceError, [GuardEval x, DfCall x, Update (x - f x / df x)])
         else apsnd (\<lambda>es. GuardEval x # DfCall x # Update (x - f x / df x) # es)
                (newton_loop f df eps max_its (x - f x / df x) (count + 1)))
      else (Inr x, [GuardEval x]))"
  by pat_completeness auto
termination
  by (relation "measure (\<lambda>(f, df, eps, max_its, x, count). nat (max_its - count))") auto

declare newton_loop.simps [simp del]

definition newton_raphson_log ::
  "(real \<Rightarrow> real) \<Rightarrow> (real \<Rightarrow> real) \<Rightarrow> real \<Rightarrow> real \<Rightarrow> int
     \<Rightarrow> (error + real) \<times> nr_event list" where
  "newton_raphson_log f df x_0 eps max_its = newton_loop f df eps max_its x_0 0"

definition newton_raphson ::
  "(real \<Rightarrow> real) \<Rightarrow> (real \<Rightarrow> real) \<Rightarrow> real \<Rightarrow> real \<Rightarrow> int \<Rightarrow> error + real" where
  "newton_raphson f df x_0 eps max_its = fst (newton_raphson_log f df x_0 eps max_its)"

definition guard_evals :: "nr_event list \<Rightarrow> nat" where
  "guard_evals es = length (filter is_GuardEval es)"

definition df_calls :: "nr_event list \<Rightarrow> nat" where
  "df_calls es = length (filter is_DfCall es)"

definition updates :: "nr_event list \<Rightarrow> nat" where
  "updates es = length (filter is_Update es)"

text \<open>
  The Newton iterate sequence in the words of the specification:
  \<open>x\<^sub>0\<close> is the starting point and \<open>x\<^sub>k\<^sub>+\<^sub>1 = x\<^sub>k - f(x\<^sub>k)/df(x\<^sub>k)\<close>.
\<close>

primrec newton_seq :: "(real \<Rightarrow> real) \<Rightarrow> (real \<Rightarrow> real) \<Rightarrow> real \<Rightarrow> nat \<Rightarrow> real" where
  "newton_seq f df x_0 0 = x_0"
| "newton_seq f df x_0 (Suc k) =
     newton_seq f df x_0 k - f (newton_seq f df x_0 k) / df (newton_seq f df x_0 k)"

subsection \<open>Bisection\<close>

text \<open>
  The working values of \<^verbatim>\<open>bisection\<close>: the two endpoints, the midpoint and the value
  of \<open>f\<close> there (the source's \<^verbatim>\<open>x_0\<close>, \<^verbatim>\<open>x_1\<close>, \<^verbatim>\<open>x_temp\<close>, \<^verbatim>\<open>f_test\<close>).
\<close>

record bracket =
  b_x_0 :: real
  b_x_1 :: real
  b_x_temp :: real
  b_f_test :: real

text \<open>
  The assignments of one pass through the loop body:
  \<^verbatim>\<open>
        if f_test >= 0:
            x_0 = x_temp
        else:
            x_1 = x_temp
        x_temp = (x_0 + x_1) / 2
        f_test = f(x_temp)
  \<close>
\<close>

definition bisection_step :: "(real \<Rightarrow> real) \<Rightarrow> bracket \<Rightarrow> bracket" where
  "bisection_step f s =
     (let x_0 = (if b_f_test s \<ge> 0 then b_x_temp s else b_x_0 s);
          x_1 = (if b_f_test s \<ge> 0 then b_x_1 s else b_x_temp s);
          x_temp = (x_0 + x_1) / 2
      in \<lparr>b_x_0 = x_0, b_x_1 = x_1, b_x_temp = x_temp, b_f_test = f x_temp\<rparr>)"

text \<open>
  The loop
  \<^verbatim>\<open>
    count = 0
    while (abs(f_test) >= eps):
        <body>
        count += 1
        if count > max_its:
            raise ConvergenceError(...)
    return x_temp
  \<close>
  returns, besides the outcome, the list of the working values it went through: the
  values on entry, then the values after each pass through the body.
\<close>

function bisection_loop ::
  "(real \<Rightarrow> real) \<Rightarrow> real \<Rightarrow> int \<Rightarrow> bracket \<Rightarrow> int \<Rightarrow> (error + real) \<times> bracket list" where
  "bisection_loop f eps max_its s count =
     (if \<bar>b_f_test s\<bar> \<ge> eps then
        (if count + 1 > max_its then (Inl ConvergenceError, [s, bisection_step f s])
         else apsnd (Cons s) (bisection_loop f eps max_its (bisection_step f s) (count + 1)))
      else (Inr (b_x_temp s), [s]))"
  by pat_completeness auto
termination
  by (relation "measure (\<lambda>(f, eps, max_its, s, count). nat (max_its - count))") auto

declare bisection_loop.simps [simp del]

text \<open>
  \<^verbatim>\<open>
    f0, f1 = f(x_0), f(x_1)
    if f0 * f1 >= 0:
        raise ValueError("f(x_0) and f(x_1) do not differ in sign.")
    # set x_0, x_1 so f(x_0) >= 0 and f(x_1) < 0
    if f0 < 0:
        x_0, x_1 = x_1, x_0
    x_temp = (x_0 + x_1) / 2
    f_test = f(x_temp)
  \<close>
\<close>

text \<open>
  The product \<^verbatim>\<open>f0 * f1\<close> of two finite double-precision values as far as its sign
  goes: rounding and overflow keep the sign of the exact product, but an exact product
  of magnitude at most \<open>2\<^sup>-\<^sup>1\<^sup>0\<^sup>7\<^sup>5\<close> (half the smallest subnormal, ties going to the even
  neighbour) is rounded to a zero, and \<^verbatim>\<open>-0.0 >= 0\<close> is true.
\<close>

definition underflow_bound :: real where
  "underflow_bound = 1 / 2 ^ 1075"

definition float_product :: "real \<Rightarrow> real \<Rightarrow> real" where
  "float_product a b = (if \<bar>a * b\<bar> \<le> underflow_bound then 0 else a * b)"

definition bisection_init :: "(real \<Rightarrow> real) \<Rightarrow> real \<Rightarrow> real \<Rightarrow> bracket" where
  "bisection_init f x_0 x_1 =
     (let x_0' = (if f x_0 < 0 then x_1 else x_0);
          x_1' = (if f x_0 < 0 then x_0 else x_1);
          x_temp = (x_0' + x_1') / 2
      in \<lparr>b_x_0 = x_0', b_x_1 = x_1', b_x_temp = x_temp, b_f_test = f x_temp\<rparr>)"

definition bisection_log ::
  "(real \<Rightarrow> real) \<Rightarrow> real \<Rightarrow> real \<Rightarrow> real \<Rightarrow> int \<Rightarrow> (error + real) \<times> bracket list" where
  "bisection_log f x_0 x_1 eps max_its =
     (if float_product (f x_0) (f x_1) \<ge> 0 then (Inl ValueError, [])
      else bisection_loop f eps max_its (bisection_init f x_0 x_1) 0)"

definition bisection :: "(real \<Rightarrow> real) \<Rightarrow> real \<Rightarrow> real \<Rightarrow> real \<Rightarrow> int \<Rightarrow> error + real" where
  "bisection f x_0 x_1 eps max_its = fst (bisection_log f x_0 x_1 eps max_its)"

subsection \<open>The composition\<close>

text \<open>
  \<^verbatim>\<open>
    try:
        x = newton_raphson(f, df, x_0, eps, max_its_n)
        return x
    except ConvergenceError:
        x = bisection(f, x_0, x_1, eps, max_its_b)
        return x
  \<close>
  The model returns the outcome and the list of the solvers that were called.
\<close>

datatype solver_call = CalledNewton | CalledBisection

definition solve_log ::
  "(real \<Rightarrow> real) \<Rightarrow> (real \<Rightarrow> real) \<Rightarrow> real \<Rightarrow> real \<Rightarrow> real \<Rightarrow> int \<Rightarrow> int
     \<Rightarrow> (error + real) \<times> solver_call list" where
  "solve_log f df x_0 x_1 eps max_its_n max_its_b =
     (case newton_raphson f df x_0 eps max_its_n of
        Inr x \<Rightarrow> (Inr x, [CalledNewton])
      | Inl e \<Rightarrow>
          (if e = ConvergenceError
           then (bisection f x_0 x_1 eps max_its_b, [CalledNewton, CalledBisection])
           else (Inl e, [CalledNewton])))"

definition solve ::
  "(real \<Rightarrow> real) \<Rightarrow> (real \<Rightarrow> real) \<Rightarrow> real \<Rightarrow> real \<Rightarrow> real \<Rightarrow> int \<Rightarrow> int \<Rightarrow> error + real" where
  "solve f df x_0 x_1 eps max_its_n max_its_b =
     fst (solve_log f df x_0 x_1 eps max_its_n max_its_b)"


subsection \<open>Auxiliary notions for the bisection loop\<close>

text \<open>
  The sign convention of the source's comment (\<^verbatim>\<open>f(x_0) >= 0 and f(x_1) < 0\<close>),
  together with the facts that \<^verbatim>\<open>x_temp\<close> is the midpoint and \<^verbatim>\<open>f_test\<close> the value of
  \<open>f\<close> there.
\<close>

definition bisection_inv :: "(real \<Rightarrow> real) \<Rightarrow> bracket \<Rightarrow> bool" where
  "bisection_inv f s =
     (f (b_x_0 s) \<ge> 0 \<and> f (b_x_1 s) < 0
      \<and> b_x_temp s = (b_x_0 s + b_x_1 s) / 2 \<and> b_f_test s = f (b_x_temp s))"

definition bracket_lo :: "bracket \<Rightarrow> real" where
  "bracket_lo s = min (b_x_0 s) (b_x_1 s)"

definition bracket_hi :: "bracket \<Rightarrow> real" where
  "bracket_hi s = max (b_x_0 s) (b_x_1 s)"

subsection \<open>Example functions\<close>

text \<open>
  The functions the specification names in its testable properties: \<open>x\<^sup>2 - 2\<close> with
  derivative \<open>2x\<close>, \<open>x\<^sup>3 - 2x + 2\<close> with derivative \<open>3x\<^sup>2 - 2\<close>, \<open>x\<^sup>2 + 1\<close> (no real
  root) with derivative \<open>2x\<close>, and \<open>x - 1\<close>.
\<close>

definition f_square :: "real \<Rightarrow> real" where
  "f_square x = x\<^sup>2 - 2"

definition df_square :: "real \<Rightarrow> real" where
  "df_square x = 2 * x"

definition f_cubic :: "real \<Rightarrow> real" where
  "f_cubic x = x ^ 3 - 2 * x + 2"

definition df_cubic :: "real \<Rightarrow> real" where
  "df_cubic x = 3 * x\<^sup>2 - 2"

definition f_noroot :: "real \<Rightarrow> real" where
  "f_noroot x = x\<^sup>2 + 1"

definition df_noroot :: "real \<Rightarrow> real" where
  "df_noroot x = 2 * x"

definition f_shift :: "real \<Rightarrow> real" where
  "f_shift x = x - 1"

text \<open>A linear function with a very small slope, \<open>2\<^sup>-\<^sup>6\<^sup>0\<^sup>0 x\<close>.\<close>

definition f_tiny :: "real \<Rightarrow> real" where
  "f_tiny x = x / 2 ^ 600"

section \<open>Properties of the Newton-Raphson loop\<close>

lemma newton_seq_shift:
  "newton_seq f df x (Suc k) = newton_seq f df (x - f x / df x) k"
  by (induction k) simp_all

lemma newton_loop_converged:
  "\<bar>f x\<bar> < eps \<Longrightarrow> newton_loop f df eps max_its x count = (Inr x, [GuardEval x])"
  by (simp add: newton_loop.simps)

lemma newton_loop_Inr:
  "fst (newton_loop f df eps max_its x count) = Inr y \<Longrightarrow>
     \<exists>k. y = newton_seq f df x k \<and> \<bar>f y\<bar> < eps
       \<and> (\<forall>j<k. eps \<le> \<bar>f (newton_seq f df x j)\<bar> \<and> df (newton_seq f df x j) \<noteq> 0)
       \<and> int k + count \<le> max max_its count"
proof (induction f df eps max_its x count rule: newton_loop.induct)
  case (1 f df eps max_its x count)
  show ?case
  proof (cases "eps \<le> \<bar>f x\<bar>")
    case False
    with "1.prems" have "y = x" by (simp add: newton_loop.simps)
    with False show ?thesis by (intro exI[of _ 0]) simp
  next
    case True
    with "1.prems" have nz: "df x \<noteq> 0" and le: "\<not> max_its < count + 1"
      by (auto simp: newton_loop.simps split: if_splits)
    with True "1.prems"
    have "fst (newton_loop f df eps max_its (x - f x / df x) (count + 1)) = Inr y"
      by (simp add: newton_loop.simps)
    from "1.IH"[OF True nz le this] obtain k where
      k: "y = newton_seq f df (x - f x / df x) k" "\<bar>f y\<bar> < eps"
         "\<forall>j<k. eps \<le> \<bar>f (newton_seq f df (x - f x / df x) j)\<bar>
                \<and> df (newton_seq f df (x - f x / df x) j) \<noteq> 0"
         "int k + (count + 1) \<le> max max_its (count + 1)"
      by blast
    have "\<forall>j<Suc k. eps \<le> \<bar>f (newton_seq f df x j)\<bar> \<and> df (newton_seq f df x j) \<noteq> 0"
    proof (intro allI impI)
      fix j assume "j < Suc k"
      show "eps \<le> \<bar>f (newton_seq f df x j)\<bar> \<and> df (newton_seq f df x j) \<noteq> 0"
      proof (cases j)
        case 0
        with True nz show ?thesis by simp
      next
        case (Suc i)
        with \<open>j < Suc k\<close> have "i < k" by simp
        with k(3) Suc show ?thesis by (simp add: newton_seq_shift del: newton_seq.simps(2))
      qed
    qed
    moreover from k(1) have "y = newton_seq f df x (Suc k)" by (simp only: newton_seq_shift)
    moreover from k(4) le have "int (Suc k) + count \<le> max max_its count" by simp
    ultimately show ?thesis using k(2) by blast
  qed
qed

lemma newton_loop_ConvergenceError:
  "(fst (newton_loop f df eps max_its x count) = Inl ConvergenceError) =
     (\<forall>k \<le> nat (max_its - count).
         eps \<le> \<bar>f (newton_seq f df x k)\<bar> \<and> df (newton_seq f df x k) \<noteq> 0)"
proof (induction f df eps max_its x count rule: newton_loop.induct)
  case (1 f df eps max_its x count)
  show ?case
  proof (cases "eps \<le> \<bar>f x\<bar> \<and> df x \<noteq> 0")
    case False
    then have "fst (newton_loop f df eps max_its x count) \<noteq> Inl ConvergenceError"
      by (auto simp: newton_loop.simps)
    moreover from False have "\<not> (eps \<le> \<bar>f (newton_seq f df x 0)\<bar> \<and> df (newton_seq f df x 0) \<noteq> 0)"
      by simp
    then have "\<not> (\<forall>k \<le> nat (max_its - count).
         eps \<le> \<bar>f (newton_seq f df x k)\<bar> \<and> df (newton_seq f df x k) \<noteq> 0)"
      by (metis le0)
    ultimately show ?thesis by simp
  next
    case True
    then have g: "eps \<le> \<bar>f x\<bar>" and nz: "df x \<noteq> 0" by simp_all
    show ?thesis
    proof (cases "max_its < count + 1")
      case True
      then have "nat (max_its - count) = 0" by simp
      with True g nz show ?thesis by (simp add: newton_loop.simps)
    next
      case False
      then have n: "nat (max_its - count) = Suc (nat (max_its - (count + 1)))" by simp
      have "(fst (newton_loop f df eps max_its x count) = Inl ConvergenceError) =
            (fst (newton_loop f df eps max_its (x - f x / df x) (count + 1)) = Inl ConvergenceError)"
        using g nz False by (simp add: newton_loop.simps)
      also have "\<dots> = (\<forall>k \<le> nat (max_its - (count + 1)).
         eps \<le> \<bar>f (newton_seq f df (x - f x / df x) k)\<bar> \<and> df (newton_seq f df (x - f x / df x) k) \<noteq> 0)"
        by (rule "1.IH"[OF g nz False])
      also have "\<dots> = (\<forall>k \<le> nat (max_its - (count + 1)).
         eps \<le> \<bar>f (newton_seq f df x (Suc k))\<bar> \<and> df (newton_seq f df x (Suc k)) \<noteq> 0)"
        by (simp only: newton_seq_shift)
      also have "\<dots> = (\<forall>k \<le> nat (max_its - count).
         eps \<le> \<bar>f (newton_seq f df x k)\<bar> \<and> df (newton_seq f df x k) \<noteq> 0)"
        unfolding n using g nz
        by (auto simp: All_less_Suc2 less_Suc_eq_le[symmetric] simp del: newton_seq.simps(2))
      finally show ?thesis .
    qed
  qed
qed

lemma newton_loop_guard_evals:
  "fst (newton_loop f df eps max_its x count) = Inl ConvergenceError \<Longrightarrow>
     guard_evals (snd (newton_loop f df eps max_its x count)) = nat (max_its - count) + 1
   \<and> df_calls (snd (newton_loop f df eps max_its x count)) = nat (max_its - count) + 1
   \<and> updates (snd (newton_loop f df eps max_its x count)) = nat (max_its - count) + 1"
proof (induction f df eps max_its x count rule: newton_loop.induct)
  case (1 f df eps max_its x count)
  from "1.prems" have g: "eps \<le> \<bar>f x\<bar>" and nz: "df x \<noteq> 0"
    by (auto simp: newton_loop.simps split: if_splits)
  show ?case
  proof (cases "max_its < count + 1")
    case True
    with g nz show ?thesis by (simp add: newton_loop.simps guard_evals_def df_calls_def updates_def)
  next
    case False
    with g nz "1.prems"
    have "fst (newton_loop f df eps max_its (x - f x / df x) (count + 1)) = Inl ConvergenceError"
      by (simp add: newton_loop.simps[of f df eps max_its x count])
    moreover from False have "nat (max_its - count) = Suc (nat (max_its - (count + 1)))" by simp
    ultimately show ?thesis using "1.IH"[OF g nz False] False g nz
      by (simp add: newton_loop.simps[of f df eps max_its x count] guard_evals_def df_calls_def updates_def)
  qed
qed

section \<open>Properties of the bisection loop\<close>

lemma successively_nth:
  "successively P xs \<Longrightarrow> Suc i < length xs \<Longrightarrow> P (xs ! i) (xs ! Suc i)"
proof (induction xs arbitrary: i)
  case Nil
  then show ?case by simp
next
  case (Cons x xs)
  show ?case
  proof (cases i)
    case 0
    with Cons.prems show ?thesis by (cases xs) simp_all
  next
    case (Suc j)
    with Cons.prems have "successively P xs" "Suc j < length xs"
      by (auto simp: successively_Cons)
    with Cons.IH Suc show ?thesis by simp
  qed
qed

lemma underflow_bound_pos: "0 < underflow_bound"
  by (simp add: underflow_bound_def)

lemma underflow_bound_small: "underflow_bound < 1 / 1000000"
proof -
  have "(1000000::real) < 2 ^ 20" by simp
  also have "(2::real) ^ 20 \<le> 2 ^ 1075" by (rule power_increasing) simp_all
  finally show ?thesis by (simp add: underflow_bound_def field_simps)
qed

lemma float_product_less_0_iff:
  "(float_product a b < 0) = (a * b < 0 \<and> underflow_bound < \<bar>a * b\<bar>)"
  using underflow_bound_pos by (auto simp: float_product_def)

lemma float_product_ge_0_iff:
  "(0 \<le> float_product a b) = (0 \<le> a * b \<or> \<bar>a * b\<bar> \<le> underflow_bound)"
  using underflow_bound_pos by (auto simp: float_product_def)

lemma float_product_exact:
  "1 / 1000000 \<le> \<bar>a * b\<bar> \<Longrightarrow> float_product a b = a * b"
  using underflow_bound_small by (simp add: float_product_def)

lemma bisection_init_inv:
  assumes "f x_0 * f x_1 < 0"
  shows "bisection_inv f (bisection_init f x_0 x_1)"
    and "bracket_lo (bisection_init f x_0 x_1) = min x_0 x_1"
    and "bracket_hi (bisection_init f x_0 x_1) = max x_0 x_1"
  using assms
  by (auto simp: bisection_inv_def bisection_init_def bracket_lo_def bracket_hi_def Let_def
        mult_less_0_iff)

lemma bisection_step_inv:
  assumes "bisection_inv f s"
  shows "bisection_inv f (bisection_step f s)"
    and "bracket_lo s \<le> bracket_lo (bisection_step f s)"
    and "bracket_hi (bisection_step f s) \<le> bracket_hi s"
  using assms
  by (auto simp: bisection_inv_def bisection_step_def bracket_lo_def bracket_hi_def Let_def
        min_def max_def field_simps)

lemma bisection_step_midpoint_within:
  assumes "bisection_inv f s"
  shows "bracket_lo s \<le> b_x_temp s" and "b_x_temp s \<le> bracket_hi s"
  using assms
  by (auto simp: bisection_inv_def bracket_lo_def bracket_hi_def min_def max_def field_simps)

lemma bisection_loop_trace_hd:
  "snd (bisection_loop f eps max_its s count) \<noteq> []
   \<and> hd (snd (bisection_loop f eps max_its s count)) = s"
  by (simp add: bisection_loop.simps[of f eps max_its s count])

lemma bisection_loop_trace_steps:
  "successively (\<lambda>a b. b = bisection_step f a) (snd (bisection_loop f eps max_its s count))"
proof (induction f eps max_its s count rule: bisection_loop.induct)
  case (1 f eps max_its s count)
  show ?case
  proof (cases "eps \<le> \<bar>b_f_test s\<bar> \<and> \<not> max_its < count + 1")
    case False
    then show ?thesis by (auto simp: bisection_loop.simps[of f eps max_its s count])
  next
    case True
    with "1.IH" bisection_loop_trace_hd[of f eps max_its "bisection_step f s" "count + 1"]
    show ?thesis
      by (simp add: bisection_loop.simps[of f eps max_its s count] successively_Cons)
  qed
qed

lemma bisection_loop_trace_inv:
  "bisection_inv f s \<Longrightarrow> lo \<le> bracket_lo s \<Longrightarrow> bracket_hi s \<le> hi \<Longrightarrow>
     \<forall>t \<in> set (snd (bisection_loop f eps max_its s count)).
        bisection_inv f t \<and> lo \<le> bracket_lo t \<and> bracket_hi t \<le> hi"
proof (induction f eps max_its s count rule: bisection_loop.induct)
  case (1 f eps max_its s count)
  note step = bisection_step_inv[OF "1.prems"(1)]
  from step "1.prems" have s': "bisection_inv f (bisection_step f s)"
     "lo \<le> bracket_lo (bisection_step f s)" "bracket_hi (bisection_step f s) \<le> hi"
    by auto
  show ?case
  proof (cases "eps \<le> \<bar>b_f_test s\<bar>")
    case False
    with "1.prems" show ?thesis by (simp add: bisection_loop.simps[of f eps max_its s count])
  next
    case g: True
    show ?thesis
    proof (cases "max_its < count + 1")
      case True
      with g "1.prems" s' show ?thesis
        by (simp add: bisection_loop.simps[of f eps max_its s count])
    next
      case False
      from "1.IH"[OF g False s'] g False "1.prems" show ?thesis
        by (simp add: bisection_loop.simps[of f eps max_its s count])
    qed
  qed
qed

lemma bisection_loop_result:
  "bisection_inv f s \<Longrightarrow> lo \<le> bracket_lo s \<Longrightarrow> bracket_hi s \<le> hi \<Longrightarrow>
     fst (bisection_loop f eps max_its s count) = Inl ConvergenceError
   \<or> (\<exists>y. fst (bisection_loop f eps max_its s count) = Inr y \<and> \<bar>f y\<bar> < eps \<and> lo \<le> y \<and> y \<le> hi)"
proof (induction f eps max_its s count rule: bisection_loop.induct)
  case (1 f eps max_its s count)
  note step = bisection_step_inv[OF "1.prems"(1)]
  from step "1.prems" have s': "bisection_inv f (bisection_step f s)"
     "lo \<le> bracket_lo (bisection_step f s)" "bracket_hi (bisection_step f s) \<le> hi"
    by auto
  show ?case
  proof (cases "eps \<le> \<bar>b_f_test s\<bar>")
    case False
    moreover from "1.prems"(1) have "b_f_test s = f (b_x_temp s)" by (simp add: bisection_inv_def)
    moreover from bisection_step_midpoint_within[OF "1.prems"(1)] "1.prems"
    have "lo \<le> b_x_temp s" "b_x_temp s \<le> hi" by auto
    ultimately show ?thesis by (simp add: bisection_loop.simps[of f eps max_its s count])
  next
    case g: True
    show ?thesis
    proof (cases "max_its < count + 1")
      case True
      with g show ?thesis by (simp add: bisection_loop.simps[of f eps max_its s count])
    next
      case False
      from "1.IH"[OF g False s'] g False show ?thesis
        by (simp add: bisection_loop.simps[of f eps max_its s count])
    qed
  qed
qed


section \<open>The claims\<close>

subsection \<open>Newton-Raphson\<close>

text \<open>
  C7: if \<open>\<bar>f x\<^sub>0\<bar> < eps\<close> already holds at the starting point, \<open>newton_raphson\<close>
  returns \<open>x\<^sub>0\<close> unchanged after a single evaluation of the loop guard: no pass through
  the loop body, no call of \<open>df\<close>, no update.
\<close>

theorem newton_raphson_zero_iterations:
  "\<bar>f x_0\<bar> < eps \<Longrightarrow>
     newton_raphson f df x_0 eps max_its = Inr x_0
   \<and> snd (newton_raphson_log f df x_0 eps max_its) = [GuardEval x_0]
   \<and> df_calls (snd (newton_raphson_log f df x_0 eps max_its)) = 0
   \<and> updates (snd (newton_raphson_log f df x_0 eps max_its)) = 0"
  by (simp add: newton_raphson_def newton_raphson_log_def newton_loop_converged
        df_calls_def updates_def)

theorem newton_raphson_zero_iterations_witness:
  "\<bar>f_shift 1\<bar> < 1 / 100000
   \<and> newton_raphson f_shift df_square 1 (1 / 100000) 20 = Inr 1
   \<and> snd (newton_raphson_log f_shift df_square 1 (1 / 100000) 20) = [GuardEval 1]
   \<and> df_calls (snd (newton_raphson_log f_shift df_square 1 (1 / 100000) 20)) = 0
   \<and> updates (snd (newton_raphson_log f_shift df_square 1 (1 / 100000) 20)) = 0"
proof -
  have h: "\<bar>f_shift 1\<bar> < 1 / 100000" by (simp add: f_shift_def)
  from newton_raphson_zero_iterations[of f_shift 1 "1 / 100000" df_square 20] h
  show ?thesis by blast
qed

text \<open>
  C5: whenever \<open>newton_raphson\<close> returns normally, its result is the first element of the
  Newton iterate sequence \<open>x\<^sub>k\<^sub>+\<^sub>1 = x\<^sub>k - f(x\<^sub>k)/df(x\<^sub>k)\<close> from \<open>x\<^sub>0\<close> with
  \<open>\<bar>f x\<bar> < eps\<close>: it is the \<open>k\<close>-th iterate for some \<open>k\<close>, it meets the tolerance, and no
  earlier iterate does (on the way no derivative was zero, and \<open>k\<close> is within the budget).
\<close>

theorem newton_raphson_first_converged_iterate:
  "newton_raphson f df x_0 eps max_its = Inr x \<Longrightarrow>
     \<exists>k. x = newton_seq f df x_0 k \<and> \<bar>f x\<bar> < eps
       \<and> (\<forall>j<k. eps \<le> \<bar>f (newton_seq f df x_0 j)\<bar> \<and> df (newton_seq f df x_0 j) \<noteq> 0)
       \<and> int k \<le> max max_its 0"
  using newton_loop_Inr[of f df eps max_its x_0 0 x]
  by (simp add: newton_raphson_def newton_raphson_log_def)

theorem newton_raphson_first_converged_iterate_witness:
  "newton_raphson f_square df_square 1 (1 / 100000) 20 = Inr (577 / 408)
   \<and> (\<exists>k. 577 / 408 = newton_seq f_square df_square 1 k \<and> int k \<le> 20)
   \<and> \<bar>f_square (577 / 408)\<bar> < 1 / 100000"
proof -
  have h: "newton_raphson f_square df_square 1 (1 / 100000) 20 = Inr (577 / 408)"
    by (simp add: newton_raphson_def newton_raphson_log_def newton_loop.simps
          f_square_def df_square_def power2_eq_square)
  from newton_raphson_first_converged_iterate[of f_square df_square 1 "1 / 100000" 20 "577 / 408"] h
  show ?thesis by auto
qed

text \<open>
  C4, as the code has it: \<open>newton_raphson\<close> raises \<open>ConvergenceError\<close> exactly when the
  counter exceeds \<open>max_its\<close> before the tolerance is reached, that is, when at each of the
  iterates \<open>x\<^sub>0, \<dots>, x\<^sub>m\<close> with \<open>m = max_its\<close> (\<open>0\<close> for a negative budget) the guard
  \<open>\<bar>f x\<bar> \<ge> eps\<close> holds and the division by \<open>df x\<close> does not fault. Whenever it is raised,
  the loop guard has been evaluated \<open>m + 1\<close> times and as many updates were made; with
  \<open>max_its = 5\<close> that is exactly 6 evaluations of the guard, the error coming with the 6th
  increment. It is raised for every function that stays at least \<open>eps\<close> away from zero,
  with a derivative that is never zero; so it is for \<open>x\<^sup>2 + 1\<close> when \<open>eps \<le> 1\<close> and the
  supplied \<open>df\<close> has no zero.
\<close>

theorem newton_raphson_convergence_error:
  "(newton_raphson f df x_0 eps max_its = Inl ConvergenceError) =
     (\<forall>k \<le> nat max_its.
         eps \<le> \<bar>f (newton_seq f df x_0 k)\<bar> \<and> df (newton_seq f df x_0 k) \<noteq> 0)
   \<and> (newton_raphson f df x_0 eps max_its = Inl ConvergenceError \<longrightarrow>
         guard_evals (snd (newton_raphson_log f df x_0 eps max_its)) = nat max_its + 1
       \<and> updates (snd (newton_raphson_log f df x_0 eps max_its)) = nat max_its + 1)
   \<and> (newton_raphson f df x_0 eps 5 = Inl ConvergenceError \<longrightarrow>
         guard_evals (snd (newton_raphson_log f df x_0 eps 5)) = 6
       \<and> updates (snd (newton_raphson_log f df x_0 eps 5)) = 6)
   \<and> ((\<forall>x. eps \<le> \<bar>f x\<bar>) \<and> (\<forall>x. df x \<noteq> 0) \<longrightarrow>
         newton_raphson f df x_0 eps max_its = Inl ConvergenceError)
   \<and> (eps \<le> 1 \<and> (\<forall>x. df x \<noteq> 0) \<longrightarrow>
         newton_raphson f_noroot df x_0 eps 5 = Inl ConvergenceError
       \<and> guard_evals (snd (newton_raphson_log f_noroot df x_0 eps 5)) = 6)"
proof -
  have iff: "(newton_raphson g df x_0 eps m = Inl ConvergenceError) =
     (\<forall>k \<le> nat m. eps \<le> \<bar>g (newton_seq g df x_0 k)\<bar> \<and> df (newton_seq g df x_0 k) \<noteq> 0)"
    for m g
    using newton_loop_ConvergenceError[of g df eps m x_0 0]
    by (simp add: newton_raphson_def newton_raphson_log_def)
  have cnt: "newton_raphson g df x_0 eps m = Inl ConvergenceError \<longrightarrow>
         guard_evals (snd (newton_raphson_log g df x_0 eps m)) = nat m + 1
       \<and> updates (snd (newton_raphson_log g df x_0 eps m)) = nat m + 1" for m g
    using newton_loop_guard_evals[of g df eps m x_0 0]
    by (simp add: newton_raphson_def newton_raphson_log_def)
  have six: "nat 5 + 1 = (6::nat)" by simp
  have away: "eps \<le> \<bar>f_noroot x\<bar>" if "eps \<le> 1" for x
  proof -
    have "0 \<le> x\<^sup>2" by simp
    then have "1 \<le> \<bar>x\<^sup>2 + 1\<bar>" by linarith
    with that show ?thesis unfolding f_noroot_def by linarith
  qed
  have noroot: "eps \<le> 1 \<and> (\<forall>x. df x \<noteq> 0) \<longrightarrow>
         newton_raphson f_noroot df x_0 eps 5 = Inl ConvergenceError
       \<and> guard_evals (snd (newton_raphson_log f_noroot df x_0 eps 5)) = 6"
    using iff[of f_noroot 5] cnt[of f_noroot 5] six away by auto
  from iff[of f max_its] cnt[of f max_its] cnt[of f 5] six noroot show ?thesis by auto
qed

theorem newton_raphson_convergence_error_witness:
  "newton_raphson f_noroot df_noroot 2 (1 / 100000) 5 = Inl ConvergenceError
   \<and> 1 / 100000 \<le> \<bar>f_noroot (newton_seq f_noroot df_noroot 2 5)\<bar>
   \<and> df_noroot (newton_seq f_noroot df_noroot 2 5) \<noteq> 0
   \<and> guard_evals (snd (newton_raphson_log f_noroot df_noroot 2 (1 / 100000) 5)) = 6
   \<and> updates (snd (newton_raphson_log f_noroot df_noroot 2 (1 / 100000) 5)) = 6"
proof -
  have h: "newton_raphson f_noroot df_noroot 2 (1 / 100000) 5 = Inl ConvergenceError"
    by (simp add: newton_raphson_def newton_raphson_log_def newton_loop.simps
          f_noroot_def df_noroot_def power2_eq_square)
  have five: "(5::nat) \<le> nat 5" by simp
  from newton_raphson_convergence_error[of f_noroot df_noroot 2 "1 / 100000" 5] h five
  show ?thesis by blast
qed

text \<open>
  C4 as stated fails for \<open>x\<^sup>2 + 1\<close>, which has no real root, with \<open>max_its = 5\<close>: with the
  derivative \<open>2x\<close> and the starting point \<open>0\<close> the run ends in the division fault after a
  single evaluation of the guard, and with the tolerance \<open>2\<close> it returns the starting
  point after a single evaluation of the guard; in neither run is \<open>ConvergenceError\<close>
  raised.
\<close>

theorem newton_raphson_noroot_counterexample:
  "newton_raphson f_noroot df_noroot 0 (1 / 100000) 5 = Inl ZeroDivisionError
   \<and> guard_evals (snd (newton_raphson_log f_noroot df_noroot 0 (1 / 100000) 5)) = 1
   \<and> newton_raphson f_noroot df_noroot 0 2 5 = Inr 0
   \<and> guard_evals (snd (newton_raphson_log f_noroot df_noroot 0 2 5)) = 1"
  by (simp add: newton_raphson_def newton_raphson_log_def newton_loop.simps
        f_noroot_def df_noroot_def guard_evals_def)

text \<open>
  C10: \<open>newton_raphson\<close> accepts the budget \<open>max_its = 0\<close>. If \<open>\<bar>f x\<^sub>0\<bar> \<ge> eps\<close>, the guard is
  evaluated once and \<open>df\<close> is called once, at \<open>x\<^sub>0\<close>: a zero derivative there gives the
  division fault (and no update), any other derivative gives one full update and then
  \<open>ConvergenceError\<close>.
\<close>

theorem newton_raphson_zero_budget:
  "eps \<le> \<bar>f x_0\<bar> \<Longrightarrow>
     (df x_0 = 0 \<longrightarrow>
        newton_raphson_log f df x_0 eps 0 = (Inl ZeroDivisionError, [GuardEval x_0, DfCall x_0]))
   \<and> (df x_0 \<noteq> 0 \<longrightarrow>
        newton_raphson_log f df x_0 eps 0 =
          (Inl ConvergenceError, [GuardEval x_0, DfCall x_0, Update (x_0 - f x_0 / df x_0)]))
   \<and> df_calls (snd (newton_raphson_log f df x_0 eps 0)) = 1
   \<and> newton_raphson f df x_0 eps 0 =
        (if df x_0 = 0 then Inl ZeroDivisionError else Inl ConvergenceError)"
  by (simp add: newton_raphson_def newton_raphson_log_def newton_loop.simps[of f df eps 0 x_0 0]
        df_calls_def)

theorem newton_raphson_zero_budget_witness:
  "1 / 100000 \<le> \<bar>f_square 1\<bar> \<and> 1 / 100000 \<le> \<bar>f_square 0\<bar>
   \<and> newton_raphson_log f_square df_square 1 (1 / 100000) 0 =
        (Inl ConvergenceError, [GuardEval 1, DfCall 1, Update (3 / 2)])
   \<and> newton_raphson_log f_square df_square 0 (1 / 100000) 0 =
        (Inl ZeroDivisionError, [GuardEval 0, DfCall 0])
   \<and> newton_raphson f_square df_square 0 (1 / 100000) 0 = Inl ZeroDivisionError"
proof -
  have h1: "1 / 100000 \<le> \<bar>f_square 1\<bar>" and h0: "1 / 100000 \<le> \<bar>f_square 0\<bar>"
    by (simp_all add: f_square_def)
  have d1: "df_square 1 \<noteq> 0" and d0: "df_square 0 = 0"
    by (simp_all add: df_square_def)
  have u: "1 - f_square 1 / df_square 1 = 3 / 2"
    by (simp add: f_square_def df_square_def)
  from newton_raphson_zero_budget[of "1 / 100000" f_square 1 df_square]
    newton_raphson_zero_budget[of "1 / 100000" f_square 0 df_square] h1 h0 d1 d0 u
  show ?thesis by simp
qed

subsection \<open>Bisection\<close>

text \<open>
  C3: \<open>bisection\<close> raises the invalid-bracket error \<open>ValueError\<close>, an error other than
  \<open>ConvergenceError\<close>, exactly when the product \<^verbatim>\<open>f(x_0) * f(x_1)\<close> it computes is
  \<open>\<ge> 0\<close> (which includes every pair whose exact product is \<open>\<ge> 0\<close>); the check comes
  before any bisection step (no working values are ever set up). In particular an
  endpoint that is exactly a root, \<open>f x\<^sub>0 = 0\<close>, is rejected as an invalid bracket.
\<close>

theorem bisection_invalid_bracket:
  "(bisection f x_0 x_1 eps max_its = Inl ValueError) = (float_product (f x_0) (f x_1) \<ge> 0)
   \<and> (float_product (f x_0) (f x_1) \<ge> 0 \<longrightarrow>
        bisection_log f x_0 x_1 eps max_its = (Inl ValueError, []))
   \<and> (f x_0 * f x_1 \<ge> 0 \<longrightarrow> bisection_log f x_0 x_1 eps max_its = (Inl ValueError, []))
   \<and> (f x_0 = 0 \<longrightarrow> bisection f x_0 x_1 eps max_its = Inl ValueError)
   \<and> ValueError \<noteq> ConvergenceError"
proof -
  have "bisection f x_0 x_1 eps max_its \<noteq> Inl ValueError"
    if fp: "float_product (f x_0) (f x_1) < 0"
  proof -
    from fp have neg: "f x_0 * f x_1 < 0" by (simp add: float_product_less_0_iff)
    note init = bisection_init_inv[of f x_0 x_1, OF neg]
    from bisection_loop_result[OF init(1) order_refl order_refl, of eps max_its 0] fp
    show ?thesis by (auto simp: bisection_def bisection_log_def)
  qed
  moreover have "float_product (f x_0) (f x_1) \<ge> 0" if "f x_0 * f x_1 \<ge> 0"
    using that by (simp add: float_product_ge_0_iff)
  moreover have "f x_0 * f x_1 \<ge> 0" if "f x_0 = 0"
    using that by simp
  ultimately show ?thesis
    by (auto simp: bisection_def bisection_log_def not_le)
qed

theorem bisection_invalid_bracket_witness:
  "f_shift 2 * f_shift 3 \<ge> 0 \<and> bisection f_shift 2 3 (1 / 100000) 20 = Inl ValueError
   \<and> bisection_log f_shift 2 3 (1 / 100000) 20 = (Inl ValueError, [])
   \<and> f_shift 1 = 0 \<and> bisection f_shift 1 3 (1 / 100000) 20 = Inl ValueError
   \<and> float_product (f_tiny (- 1)) (f_tiny 1) \<ge> 0
   \<and> bisection f_tiny (- 1) 1 (1 / 100000) 20 = Inl ValueError"
proof -
  have h: "f_shift 2 * f_shift 3 \<ge> 0" and z: "f_shift 1 = 0"
    by (simp_all add: f_shift_def)
  from h have h': "float_product (f_shift 2) (f_shift 3) \<ge> 0"
    by (simp add: float_product_ge_0_iff)
  have "\<bar>f_tiny (- 1) * f_tiny 1\<bar> = 1 / 2 ^ 1200"
    by (simp add: f_tiny_def flip: power_add)
  also have "\<dots> \<le> underflow_bound"
    unfolding underflow_bound_def
    by (intro divide_left_mono power_increasing) simp_all
  finally have u: "float_product (f_tiny (- 1)) (f_tiny 1) \<ge> 0"
    by (simp add: float_product_def)
  from bisection_invalid_bracket[of f_shift 2 3 "1 / 100000" 20]
    bisection_invalid_bracket[of f_shift 1 3 "1 / 100000" 20]
    bisection_invalid_bracket[of f_tiny "- 1" 1 "1 / 100000" 20] h h' z u
  show ?thesis by blast
qed




text \<open>
  C8: in every pass through the bisection loop the tie-break rule holds. For two
  successive entries of the list of working values: if \<open>f\<close> at the current midpoint
  (\<open>f_test\<close>, which is \<open>f x_temp\<close>) is \<open>\<ge> 0\<close>, zero included, then \<open>x\<^sub>0\<close> (the endpoint kept
  at \<open>f x\<^sub>0 \<ge> 0\<close>) becomes the midpoint and \<open>x\<^sub>1\<close> stays; otherwise \<open>x\<^sub>1\<close> becomes the
  midpoint and \<open>x\<^sub>0\<close> stays.
\<close>

theorem bisection_tie_break:
  "tr = snd (bisection_log f x_0 x_1 eps max_its) \<Longrightarrow> Suc i < length tr \<Longrightarrow>
     b_f_test (tr ! i) = f (b_x_temp (tr ! i))
   \<and> (b_f_test (tr ! i) \<ge> 0 \<longrightarrow>
        b_x_0 (tr ! Suc i) = b_x_temp (tr ! i) \<and> b_x_1 (tr ! Suc i) = b_x_1 (tr ! i))
   \<and> (b_f_test (tr ! i) < 0 \<longrightarrow>
        b_x_1 (tr ! Suc i) = b_x_temp (tr ! i) \<and> b_x_0 (tr ! Suc i) = b_x_0 (tr ! i))"
proof -
  assume tr: "tr = snd (bisection_log f x_0 x_1 eps max_its)" and i: "Suc i < length tr"
  from tr i have fp: "float_product (f x_0) (f x_1) < 0"
    by (auto simp: bisection_log_def split: if_splits)
  then have neg: "f x_0 * f x_1 < 0" by (simp add: float_product_less_0_iff)
  from fp tr have tr': "tr = snd (bisection_loop f eps max_its (bisection_init f x_0 x_1) 0)"
    by (simp add: bisection_log_def not_le)
  note init = bisection_init_inv[of f x_0 x_1, OF neg]
  from i have "tr ! i \<in> set tr" by simp
  with bisection_loop_trace_inv[OF init(1) order_refl order_refl, of eps max_its 0] tr'
  have "bisection_inv f (tr ! i)" by blast
  then have "b_f_test (tr ! i) = f (b_x_temp (tr ! i))" by (simp add: bisection_inv_def)
  moreover from successively_nth[OF bisection_loop_trace_steps, of i f eps max_its _ 0] i tr'
  have "tr ! Suc i = bisection_step f (tr ! i)" by simp
  ultimately show ?thesis by (simp add: bisection_step_def Let_def)
qed

theorem bisection_tie_break_witness:
  "snd (bisection_log f_shift 0 3 (1 / 10) 20) =
     [\<lparr>b_x_0 = 3, b_x_1 = 0, b_x_temp = 3 / 2, b_f_test = 1 / 2\<rparr>,
      \<lparr>b_x_0 = 3 / 2, b_x_1 = 0, b_x_temp = 3 / 4, b_f_test = - (1 / 4)\<rparr>,
      \<lparr>b_x_0 = 3 / 2, b_x_1 = 3 / 4, b_x_temp = 9 / 8, b_f_test = 1 / 8\<rparr>,
      \<lparr>b_x_0 = 9 / 8, b_x_1 = 3 / 4, b_x_temp = 15 / 16, b_f_test = - (1 / 16)\<rparr>]
   \<and> Suc 1 < length (snd (bisection_log f_shift 0 3 (1 / 10) 20))
   \<and> b_f_test (snd (bisection_log f_shift 0 3 (1 / 10) 20) ! 1) < 0
   \<and> b_x_1 (snd (bisection_log f_shift 0 3 (1 / 10) 20) ! Suc 1)
       = b_x_temp (snd (bisection_log f_shift 0 3 (1 / 10) 20) ! 1)
   \<and> b_x_0 (snd (bisection_log f_shift 0 3 (1 / 10) 20) ! Suc 1)
       = b_x_0 (snd (bisection_log f_shift 0 3 (1 / 10) 20) ! 1)"
proof -
  have t: "snd (bisection_log f_shift 0 3 (1 / 10) 20) =
     [\<lparr>b_x_0 = 3, b_x_1 = 0, b_x_temp = 3 / 2, b_f_test = 1 / 2\<rparr>,
      \<lparr>b_x_0 = 3 / 2, b_x_1 = 0, b_x_temp = 3 / 4, b_f_test = - (1 / 4)\<rparr>,
      \<lparr>b_x_0 = 3 / 2, b_x_1 = 3 / 4, b_x_temp = 9 / 8, b_f_test = 1 / 8\<rparr>,
      \<lparr>b_x_0 = 9 / 8, b_x_1 = 3 / 4, b_x_temp = 15 / 16, b_f_test = - (1 / 16)\<rparr>]"
    by (simp add: bisection_log_def bisection_init_def bisection_loop.simps
          bisection_step_def f_shift_def Let_def float_product_exact)
  have l: "Suc 1 < length (snd (bisection_log f_shift 0 3 (1 / 10) 20))"
    and n: "b_f_test (snd (bisection_log f_shift 0 3 (1 / 10) 20) ! 1) < 0"
    by (simp_all add: t)
  from bisection_tie_break[of _ f_shift 0 3 "1 / 10" 20 1, OF refl l] l n t
  show ?thesis by simp
qed



subsection \<open>The composition\<close>

text \<open>
  C1: \<open>solve\<close> returns the result of \<open>newton_raphson f df x\<^sub>0 eps max_its_n\<close> when that call
  succeeds; \<open>x\<^sub>1\<close> is not used then (\<open>bisection\<close> is not called). If \<open>newton_raphson\<close>
  raises \<open>ConvergenceError\<close>, \<open>solve\<close> calls \<open>bisection f x\<^sub>0 x\<^sub>1 eps max_its_b\<close> and its
  outcome is the outcome of that call, whether a value, \<open>ConvergenceError\<close> or the
  invalid-bracket error.
\<close>

theorem solve_newton_then_bisection:
  "(newton_raphson f df x_0 eps max_its_n = Inr x \<longrightarrow>
        solve f df x_0 x_1 eps max_its_n max_its_b = Inr x
      \<and> solve_log f df x_0 x_1 eps max_its_n max_its_b = (Inr x, [CalledNewton]))
   \<and> (newton_raphson f df x_0 eps max_its_n = Inl ConvergenceError \<longrightarrow>
        solve f df x_0 x_1 eps max_its_n max_its_b = bisection f x_0 x_1 eps max_its_b
      \<and> solve_log f df x_0 x_1 eps max_its_n max_its_b =
          (bisection f x_0 x_1 eps max_its_b, [CalledNewton, CalledBisection]))"
  by (simp add: solve_def solve_log_def)

theorem solve_newton_then_bisection_witness:
  "newton_raphson f_square df_square 1 (1 / 100000) 20 = Inr (577 / 408)
   \<and> solve f_square df_square 1 2 (1 / 100000) 20 20 = Inr (577 / 408)
   \<and> solve_log f_square df_square 1 2 (1 / 100000) 20 20 = (Inr (577 / 408), [CalledNewton])
   \<and> newton_raphson f_cubic df_cubic 0 (1 / 10) 3 = Inl ConvergenceError
   \<and> bisection f_cubic 0 (- 2) (1 / 10) 20 = Inr (- (57 / 32))
   \<and> solve f_cubic df_cubic 0 (- 2) (1 / 10) 3 20 = Inr (- (57 / 32))
   \<and> newton_raphson f_cubic df_cubic 0 (1 / 10) 3 = Inl ConvergenceError
   \<and> bisection f_cubic 0 2 (1 / 10) 20 = Inl ValueError
   \<and> solve f_cubic df_cubic 0 2 (1 / 10) 3 20 = Inl ValueError"
proof -
  have n1: "newton_raphson f_square df_square 1 (1 / 100000) 20 = Inr (577 / 408)"
    by (simp add: newton_raphson_def newton_raphson_log_def newton_loop.simps
          f_square_def df_square_def power2_eq_square)
  have n2: "newton_raphson f_cubic df_cubic 0 (1 / 10) 3 = Inl ConvergenceError"
    by (simp add: newton_raphson_def newton_raphson_log_def newton_loop.simps
          f_cubic_def df_cubic_def power2_eq_square power3_eq_cube)
  have b1: "bisection f_cubic 0 (- 2) (1 / 10) 20 = Inr (- (57 / 32))"
    by (simp add: bisection_def bisection_log_def bisection_init_def bisection_loop.simps
          bisection_step_def f_cubic_def Let_def power3_eq_cube float_product_exact)
  have b2: "bisection f_cubic 0 2 (1 / 10) 20 = Inl ValueError"
    by (simp add: bisection_def bisection_log_def f_cubic_def float_product_exact)
  from solve_newton_then_bisection[of f_square df_square 1 "1 / 100000" 20 "577 / 408" 2 20]
    solve_newton_then_bisection[of f_cubic df_cubic 0 "1 / 10" 3 _ "- 2" 20]
    solve_newton_then_bisection[of f_cubic df_cubic 0 "1 / 10" 3 _ 2 20]
    n1 n2 b1 b2
  show ?thesis by simp
qed

text \<open>
  C6: an error of the Newton-Raphson phase other than \<open>ConvergenceError\<close> (such as the
  fault of the division \<open>f x / df x\<close> at a zero derivative) is not caught by \<open>solve\<close>: it
  is the outcome of \<open>solve\<close>, and \<open>bisection\<close> is not called.
\<close>

theorem solve_other_error_propagates:
  "newton_raphson f df x_0 eps max_its_n = Inl e \<Longrightarrow> e \<noteq> ConvergenceError \<Longrightarrow>
     solve f df x_0 x_1 eps max_its_n max_its_b = Inl e
   \<and> solve_log f df x_0 x_1 eps max_its_n max_its_b = (Inl e, [CalledNewton])
   \<and> CalledBisection \<notin> set (snd (solve_log f df x_0 x_1 eps max_its_n max_its_b))"
  by (simp add: solve_def solve_log_def)

theorem solve_other_error_propagates_witness:
  "newton_raphson f_noroot df_noroot 0 (1 / 100000) 20 = Inl ZeroDivisionError
   \<and> ZeroDivisionError \<noteq> ConvergenceError
   \<and> f_noroot 0 * f_noroot 1 \<ge> 0
   \<and> solve f_noroot df_noroot 0 1 (1 / 100000) 20 20 = Inl ZeroDivisionError
   \<and> solve_log f_noroot df_noroot 0 1 (1 / 100000) 20 20 = (Inl ZeroDivisionError, [CalledNewton])"
proof -
  have h: "newton_raphson f_noroot df_noroot 0 (1 / 100000) 20 = Inl ZeroDivisionError"
    by (simp add: newton_raphson_def newton_raphson_log_def newton_loop.simps
          f_noroot_def df_noroot_def)
  have d: "ZeroDivisionError \<noteq> ConvergenceError" by simp
  have p: "f_noroot 0 * f_noroot 1 \<ge> 0" by (simp add: f_noroot_def)
  from solve_other_error_propagates[OF h d, of 1 20] h p show ?thesis by simp
qed

end
